theory Spec2Isabelle
  imports Main "HOL-Library.AList"
begin

section \<open>Values and documents\<close>

text \<open>
  The program keeps its data in a document store. A document is a Python \<open>dict\<close> from
  field names to values; it is modelled as an association list in insertion order, and a
  Python value as the datatype \<open>val\<close>. A stored date is a naive \<open>datetime\<close> (the
  store keeps no time zone), modelled as the record of its fields.
\<close>

record datetime =
  year :: nat
  month :: nat
  day :: nat
  hour :: nat
  minute :: nat
  second :: nat
  microsecond :: nat

datatype val =
    VNone
  | VBool bool
  | VInt int
  | VStr string
  | VDatetime datetime
  | VObjectId string
  | VList "val list"
  | VDoc "(string \<times> val) list"

type_synonym doc = "(string \<times> val) list"

text \<open>Truth value of \<open>if x:\<close> for an optional document: \<open>None\<close> and \<open>{}\<close> are false.\<close>

definition truthy_doc :: "doc option \<Rightarrow> bool" where
  "truthy_doc x = (case x of None \<Rightarrow> False | Some d \<Rightarrow> d \<noteq> [])"

text \<open>Truth value of \<open>if s:\<close> for an optional string: \<open>None\<close> and \<open>""\<close> are false.\<close>

definition truthy_str :: "string option \<Rightarrow> bool" where
  "truthy_str x = (case x of None \<Rightarrow> False | Some s \<Rightarrow> s \<noteq> [])"

section \<open>Rendering values as text\<close>

text \<open>Python's decimal text of a natural number, and \<open>"%0wd" % n\<close>.\<close>

definition digit_char :: "nat \<Rightarrow> char" where
  "digit_char n = ''0123456789'' ! (n mod 10)"

fun str_nat :: "nat \<Rightarrow> string" where
  "str_nat n = (if n < 10 then [digit_char n] else str_nat (n div 10) @ [digit_char n])"

declare str_nat.simps [simp del]

definition str_int :: "int \<Rightarrow> string" where
  "str_int i = (if i < 0 then CHR ''-'' # str_nat (nat (- i)) else str_nat (nat i))"

definition zero_pad :: "nat \<Rightarrow> nat \<Rightarrow> string" where
  "zero_pad w n = replicate (w - length (str_nat n)) CHR ''0'' @ str_nat n"

text \<open>
  \<open>datetime.isoformat(sep)\<close> of a naive datetime: date, separator, time, and the
  microseconds only when they are not zero.
\<close>

definition isoformat_sep :: "char \<Rightarrow> datetime \<Rightarrow> string" where
  "isoformat_sep sep t =
     zero_pad 4 (year t) @ ''-'' @ zero_pad 2 (month t) @ ''-'' @ zero_pad 2 (day t) @ [sep] @
     zero_pad 2 (hour t) @ '':'' @ zero_pad 2 (minute t) @ '':'' @ zero_pad 2 (second t) @
     (if microsecond t \<noteq> 0 then ''.'' @ zero_pad 6 (microsecond t) else [])"

definition isoformat :: "datetime \<Rightarrow> string" where
  "isoformat t = isoformat_sep CHR ''T'' t"

text \<open>The field ranges every \<open>datetime\<close> object of Python satisfies.\<close>

definition is_leap :: "nat \<Rightarrow> bool" where
  "is_leap y = (y mod 4 = 0 \<and> (y mod 100 \<noteq> 0 \<or> y mod 400 = 0))"

definition days_in_month :: "nat \<Rightarrow> nat \<Rightarrow> nat" where
  "days_in_month y m =
     (if m = 2 \<and> is_leap y then 29
      else [0, 31, 28, 31, 30, 31, 30, 31, 31, 30, 31, 30, 31] ! m)"

definition valid_datetime :: "datetime \<Rightarrow> bool" where
  "valid_datetime t =
     (1 \<le> year t \<and> year t \<le> 9999 \<and> 1 \<le> month t \<and> month t \<le> 12 \<and>
      1 \<le> day t \<and> day t \<le> days_in_month (year t) (month t) \<and>
      hour t < 24 \<and> minute t < 60 \<and> second t < 60 \<and> microsecond t < 1000000)"

text \<open>
  The extended ISO-8601 format of a local date and time, \<open>YYYY-MM-DDTHH:MM:SS\<close> with an
  optional fraction of six digits. In a pattern, \<open>d\<close> stands for a decimal digit and
  every other character for itself.
\<close>

definition is_digit :: "char \<Rightarrow> bool" where
  "is_digit c = (c \<in> set ''0123456789'')"

definition has_shape :: "string \<Rightarrow> string \<Rightarrow> bool" where
  "has_shape pat s = list_all2 (\<lambda>p c. if p = CHR ''d'' then is_digit c else c = p) pat s"

definition iso8601 :: "string \<Rightarrow> bool" where
  "iso8601 s = (has_shape ''dddd-dd-ddTdd:dd:dd'' s \<or> has_shape ''dddd-dd-ddTdd:dd:dd.dddddd'' s)"

text \<open>
  Python's \<open>str\<close> of a value. The text of a list or of a dict is the \<open>repr\<close> of its
  parts, which is not modelled: it is the parameter \<open>r\<close>.
\<close>

fun py_str :: "(val \<Rightarrow> string) \<Rightarrow> val \<Rightarrow> string" where
  "py_str r VNone = ''None''"
| "py_str r (VBool b) = (if b then ''True'' else ''False'')"
| "py_str r (VInt i) = str_int i"
| "py_str r (VStr s) = s"
| "py_str r (VDatetime t) = isoformat_sep CHR '' '' t"
| "py_str r (VObjectId h) = h"
| "py_str r (VList xs) = r (VList xs)"
| "py_str r (VDoc d) = r (VDoc d)"

section \<open>Public form of a document\<close>

text \<open>One round of the loop of \<open>to_public\<close>: a datetime value is replaced in \<open>d\<close> by its
  ISO text, any other value is left alone.\<close>

definition iso_step :: "doc \<Rightarrow> string \<times> val \<Rightarrow> doc" where
  "iso_step d kv =
     (case snd kv of
        VDatetime t \<Rightarrow> AList.update (fst kv) (VStr (isoformat t)) d
      | _ \<Rightarrow> d)"

text \<open>
  \<open>to_public\<close>: an empty document is returned as it is; otherwise \<open>_id\<close> is popped and its
  text stored under \<open>id\<close>, then the loop runs over the items the document had at that
  moment.
\<close>

definition to_public :: "(val \<Rightarrow> string) \<Rightarrow> doc \<Rightarrow> doc" where
  "to_public r doc =
     (if doc = [] then doc
      else
        let d = (case map_of doc ''_id'' of
                   Some v \<Rightarrow> AList.update ''id'' (VStr (py_str r v)) (AList.delete ''_id'' doc)
                 | None \<Rightarrow> doc)
        in foldl iso_step d d)"

text \<open>What the loop of \<open>to_public\<close> leaves in place of a value: the ISO text of a
  datetime, the value itself otherwise.\<close>

definition iso_val :: "val \<Rightarrow> val" where
  "iso_val v = (case v of VDatetime t \<Rightarrow> VStr (isoformat t) | _ \<Rightarrow> v)"

section \<open>The store\<close>

text \<open>
  The global \<open>db\<close> maps a collection name to the documents of that collection, in
  insertion order. To speak about the accesses an operation makes, the state also keeps
  the log of reads and writes, one entry per call that reaches the store.
\<close>

datatype access = Read string | Write string

record store =
  colls :: "string \<Rightarrow> doc list"
  oplog :: "access list"

text \<open>
  A filter of the program is a dict of field names to strings, \<open>{"user_id": u}\<close>,
  \<open>{"start_time_iso": t}\<close> or \<open>{}\<close>. A document matches when every named field holds
  exactly that string: the strings are compared as they are, nothing is parsed or
  normalised. The fields the program filters on are declared \<open>str\<close> in its schemas.
\<close>

type_synonym filt = "(string \<times> string) list"

definition matches :: "filt \<Rightarrow> doc \<Rightarrow> bool" where
  "matches f d = list_all (\<lambda>(k, s). map_of d k = Some (VStr s)) f"

text \<open>\<open>db[c].find_one(f)\<close>: the first document of collection \<open>c\<close> matching \<open>f\<close>, or \<open>None\<close>.\<close>

definition find_one :: "string \<Rightarrow> filt \<Rightarrow> store \<Rightarrow> doc option \<times> store" where
  "find_one c f s = (List.find (matches f) (colls s c), s\<lparr>oplog := oplog s @ [Read c]\<rparr>)"

text \<open>
  Modelled from the spec: \<open>create_document\<close> of the module \<open>database\<close>, which is not
  among the sources. The spec says the new record is persisted and that the generated
  identity is returned. The identity the store generates for the record is the
  argument \<open>new_id\<close> (the hexadecimal text of the ObjectId); the record is appended to the
  collection with the identity under \<open>_id\<close>, and the identity is returned as a string.
  A schema object is passed as the document of its fields. A failure of the store itself
  (the infrastructure error of the spec) is outside the model: the insert succeeds.
\<close>

definition create_document :: "string \<Rightarrow> doc \<Rightarrow> string \<Rightarrow> store \<Rightarrow> string \<times> store" where
  "create_document c d new_id s =
     (new_id,
      s\<lparr>colls := (colls s)(c := colls s c @ [(''_id'', VObjectId new_id) # d]),
        oplog := oplog s @ [Write c]\<rparr>)"

text \<open>
  Modelled from the spec: \<open>get_documents\<close> of the module \<open>database\<close>, which is not
  among the sources. The spec says listing returns the ordered sequence of the records
  that match the filter, and all records for the empty filter.
\<close>

definition get_documents :: "string \<Rightarrow> filt \<Rightarrow> store \<Rightarrow> doc list \<times> store" where
  "get_documents c f s = (filter (matches f) (colls s c), s\<lparr>oplog := oplog s @ [Read c]\<rparr>)"

section \<open>Schemas\<close>

record Appointment =
  user_id :: string
  service_id :: string
  service_title :: string
  start_time_iso :: string
  duration_minutes :: int
  status :: string
  order_id :: "string option"

text \<open>The constructor call of the source gives no \<open>status\<close> and no \<open>order_id\<close>: the
  defaults of the schema apply.\<close>

definition new_Appointment :: "string \<Rightarrow> string \<Rightarrow> string \<Rightarrow> string \<Rightarrow> int \<Rightarrow> Appointment" where
  "new_Appointment u sid title start dur =
     \<lparr>user_id = u, service_id = sid, service_title = title, start_time_iso = start,
      duration_minutes = dur, status = ''scheduled'', order_id = None\<rparr>"

definition opt_str :: "string option \<Rightarrow> val" where
  "opt_str x = (case x of None \<Rightarrow> VNone | Some s \<Rightarrow> VStr s)"

text \<open>The document of an appointment: its fields in the order of the schema.\<close>

definition dump_Appointment :: "Appointment \<Rightarrow> doc" where
  "dump_Appointment a =
     [(''user_id'', VStr (Appointment.user_id a)),
      (''service_id'', VStr (Appointment.service_id a)),
      (''service_title'', VStr (Appointment.service_title a)),
      (''start_time_iso'', VStr (Appointment.start_time_iso a)),
      (''duration_minutes'', VInt (Appointment.duration_minutes a)),
      (''status'', VStr (Appointment.status a)),
      (''order_id'', opt_str (Appointment.order_id a))]"

section \<open>Booking\<close>

record CreateAppointmentRequest =
  user_id :: string
  service_id :: string
  service_title :: string
  start_time_iso :: string
  duration_minutes :: int

text \<open>
  The request body, as the handler receives it once the framework has checked the field
  types. \<open>raise HTTPException(...)\<close> is the left result of the handler, the returned dict
  the right one. The handler reads the store once, for a record with the requested
  \<open>start_time_iso\<close>, and inserts the new appointment only when that read found nothing.
\<close>

datatype http_exception = HTTPException (status_code: nat) (detail: string)

definition create_appointment ::
  "CreateAppointmentRequest \<Rightarrow> string \<Rightarrow> store \<Rightarrow> (http_exception + doc) \<times> store" where
  "create_appointment req new_id s =
     (let (conflict, s1) =
            find_one ''appointment''
              [(''start_time_iso'', CreateAppointmentRequest.start_time_iso req)] s
      in if truthy_doc conflict
         then (Inl (HTTPException 400 ''Time slot already booked''), s1)
         else
           let appt = new_Appointment
                        (CreateAppointmentRequest.user_id req)
                        (CreateAppointmentRequest.service_id req)
                        (CreateAppointmentRequest.service_title req)
                        (CreateAppointmentRequest.start_time_iso req)
                        (CreateAppointmentRequest.duration_minutes req);
               (appt_id, s2) = create_document ''appointment'' (dump_Appointment appt) new_id s1
           in (Inr [(''id'', VStr appt_id)], s2))"

text \<open>The document a successful booking of \<open>req\<close> stores under the identity \<open>new_id\<close>.\<close>

definition stored_appointment :: "CreateAppointmentRequest \<Rightarrow> string \<Rightarrow> doc" where
  "stored_appointment req new_id =
     [(''_id'', VObjectId new_id),
      (''user_id'', VStr (CreateAppointmentRequest.user_id req)),
      (''service_id'', VStr (CreateAppointmentRequest.service_id req)),
      (''service_title'', VStr (CreateAppointmentRequest.service_title req)),
      (''start_time_iso'', VStr (CreateAppointmentRequest.start_time_iso req)),
      (''duration_minutes'', VInt (CreateAppointmentRequest.duration_minutes req)),
      (''status'', VStr ''scheduled''),
      (''order_id'', VNone)]"

text \<open>A slot is taken when a stored appointment holds exactly that string as its
  \<open>start_time_iso\<close>.\<close>

definition slot_taken :: "store \<Rightarrow> string \<Rightarrow> bool" where
  "slot_taken s t =
     list_ex (\<lambda>d. map_of d ''start_time_iso'' = Some (VStr t)) (colls s ''appointment'')"

text \<open>Requests served one after the other, each with the identity the store generates
  for it.\<close>

fun book_all :: "(CreateAppointmentRequest \<times> string) list \<Rightarrow> store \<Rightarrow> store" where
  "book_all [] s = s"
| "book_all (r # rs) s = book_all rs (snd (create_appointment (fst r) (snd r) s))"

text \<open>The values stored under \<open>start_time_iso\<close>, one per appointment that has the field;
  the invariant says that no value occurs twice.\<close>

definition slots :: "store \<Rightarrow> val list" where
  "slots s = List.map_filter (\<lambda>d. map_of d ''start_time_iso'') (colls s ''appointment'')"

definition unique_slots :: "store \<Rightarrow> bool" where
  "unique_slots s = distinct (slots s)"

section \<open>Listing\<close>

text \<open>
  The query parameter \<open>user_id\<close> is optional. The filter names it only when it is truthy,
  so both \<open>None\<close> and the empty string give the empty filter.
\<close>

definition list_appointments ::
  "(val \<Rightarrow> string) \<Rightarrow> string option \<Rightarrow> store \<Rightarrow> doc list \<times> store" where
  "list_appointments r user_id' s =
     (let filt = (if truthy_str user_id'
                  then (case user_id' of Some u \<Rightarrow> [(''user_id'', u)] | None \<Rightarrow> [])
                  else []);
          (docs, s1) = get_documents ''appointment'' filt s
      in (map (to_public r) docs, s1))"

text \<open>The appointments of a user: the records whose \<open>user_id\<close> is exactly the string \<open>u\<close>.\<close>

definition has_user :: "string \<Rightarrow> doc \<Rightarrow> bool" where
  "has_user u d = (map_of d ''user_id'' = Some (VStr u))"

section \<open>Checkout\<close>

record OrderItem =
  service_id :: string
  service_title :: string
  quantity :: int
  price_cents :: int

record Order =
  user_id :: string
  items :: "OrderItem list"
  amount_cents :: int
  status :: string
  stripe_session_id :: "string option"
  stripe_payment_intent :: "string option"
  paid_at :: "datetime option"

text \<open>The constructor call of the source gives the user, the items and the amount: the
  defaults of the schema apply to the other fields.\<close>

definition new_Order :: "string \<Rightarrow> OrderItem list \<Rightarrow> int \<Rightarrow> Order" where
  "new_Order u its amount =
     \<lparr>user_id = u, items = its, amount_cents = amount, status = ''pending'',
      stripe_session_id = None, stripe_payment_intent = None, paid_at = None\<rparr>"

definition dump_OrderItem :: "OrderItem \<Rightarrow> doc" where
  "dump_OrderItem i =
     [(''service_id'', VStr (OrderItem.service_id i)),
      (''service_title'', VStr (OrderItem.service_title i)),
      (''quantity'', VInt (OrderItem.quantity i)),
      (''price_cents'', VInt (OrderItem.price_cents i))]"

definition opt_datetime :: "datetime option \<Rightarrow> val" where
  "opt_datetime x = (case x of None \<Rightarrow> VNone | Some t \<Rightarrow> VDatetime t)"

definition dump_Order :: "Order \<Rightarrow> doc" where
  "dump_Order ord =
     [(''user_id'', VStr (Order.user_id ord)),
      (''items'', VList (map (\<lambda>i. VDoc (dump_OrderItem i)) (Order.items ord))),
      (''amount_cents'', VInt (Order.amount_cents ord)),
      (''status'', VStr (Order.status ord)),
      (''stripe_session_id'', opt_str (Order.stripe_session_id ord)),
      (''stripe_payment_intent'', opt_str (Order.stripe_payment_intent ord)),
      (''paid_at'', opt_datetime (Order.paid_at ord))]"

record CheckoutRequest =
  user_id :: string
  items :: "OrderItem list"

text \<open>Python's \<open>sum\<close>: the items are added from the left, starting at 0.\<close>

definition py_sum :: "int list \<Rightarrow> int" where
  "py_sum xs = foldl (+) 0 xs"

text \<open>The amount is computed from the items of the request; the order is stored with it and
  the same amount is returned.\<close>

definition create_checkout :: "CheckoutRequest \<Rightarrow> string \<Rightarrow> store \<Rightarrow> doc \<times> store" where
  "create_checkout req new_id s =
     (let amount = py_sum (map (\<lambda>item. OrderItem.price_cents item * OrderItem.quantity item)
                              (CheckoutRequest.items req));
          ord = new_Order (CheckoutRequest.user_id req) (CheckoutRequest.items req) amount;
          (order_id', s1) = create_document ''order'' (dump_Order ord) new_id s
      in ([(''order_id'', VStr order_id'), (''amount_cents'', VInt amount),
           (''stripe_checkout_url'', VNone)], s1))"

section \<open>Example data\<close>

text \<open>A store with no documents, a request for a slot, the store after one booking, and a
  run of three requests of which the second asks for the slot of the first.\<close>

definition empty_store :: store where
  "empty_store = \<lparr>colls = (\<lambda>c. []), oplog = []\<rparr>"

definition booking :: "string \<Rightarrow> string \<Rightarrow> int \<Rightarrow> CreateAppointmentRequest" where
  "booking u t m =
     \<lparr>CreateAppointmentRequest.user_id = u, service_id = ''svc1'',
      service_title = ''Therapy Session'', start_time_iso = t, duration_minutes = m\<rparr>"

definition one_booked :: store where
  "one_booked = snd (create_appointment (booking ''u1'' ''2024-01-01T10:00:00'' 45) ''a1'' empty_store)"

definition two_slots :: "(CreateAppointmentRequest \<times> string) list" where
  "two_slots =
     [(booking ''u1'' ''2024-01-01T10:00:00'' 45, ''a1''),
      (booking ''u2'' ''2024-01-01T10:00:00'' 30, ''a2''),
      (booking ''u2'' ''2024-01-01T10:00:01'' 30, ''a3'')]"

text \<open>A rendering of lists and dicts, a stored date, a record that holds it, and a checkout
  request.\<close>

definition no_repr :: "val \<Rightarrow> string" where
  "no_repr v = []"

definition booked_at :: datetime where
  "booked_at = \<lparr>year = 2024, month = 1, day = 1, hour = 9, minute = 30, second = 0, microsecond = 0\<rparr>"

definition dated_doc :: doc where
  "dated_doc = [(''_id'', VObjectId ''a1''), (''user_id'', VStr ''u1''), (''created_at'', VDatetime booked_at)]"

definition order_item :: "string \<Rightarrow> int \<Rightarrow> int \<Rightarrow> OrderItem" where
  "order_item sid q p =
     \<lparr>OrderItem.service_id = sid, service_title = ''Therapy Session'', quantity = q, price_cents = p\<rparr>"

definition checkout :: "OrderItem list \<Rightarrow> CheckoutRequest" where
  "checkout its = \<lparr>CheckoutRequest.user_id = ''u1'', items = its\<rparr>"

section \<open>Properties of booking\<close>

lemma matches_slot [simp]:
  "matches [(''start_time_iso'', t)] d \<longleftrightarrow> map_of d ''start_time_iso'' = Some (VStr t)"
  by (simp add: matches_def)

lemma find_slot_None:
  "List.find (matches [(''start_time_iso'', t)]) ds = None \<longleftrightarrow>
   \<not> list_ex (\<lambda>d. map_of d ''start_time_iso'' = Some (VStr t)) ds"
  by (auto simp: find_None_iff list_ex_iff)

lemma find_slot_truthy:
  "truthy_doc (List.find (matches [(''start_time_iso'', t)]) ds) \<longleftrightarrow>
   list_ex (\<lambda>d. map_of d ''start_time_iso'' = Some (VStr t)) ds"
proof (cases "List.find (matches [(''start_time_iso'', t)]) ds")
  case None
  then have "\<not> list_ex (\<lambda>d. map_of d ''start_time_iso'' = Some (VStr t)) ds"
    by (simp add: find_slot_None)
  with None show ?thesis
    by (simp add: truthy_doc_def)
next
  case (Some d)
  then have m: "map_of d ''start_time_iso'' = Some (VStr t)" and "d \<in> set ds"
    by (auto simp: find_Some_iff)
  then have "d \<noteq> []" and "list_ex (\<lambda>d. map_of d ''start_time_iso'' = Some (VStr t)) ds"
    by (auto simp: list_ex_iff)
  with Some show ?thesis
    by (simp add: truthy_doc_def)
qed

lemma create_appointment_conflict:
  "slot_taken s (CreateAppointmentRequest.start_time_iso req) \<Longrightarrow>
   create_appointment req new_id s =
     (Inl (HTTPException 400 ''Time slot already booked''),
      s\<lparr>oplog := oplog s @ [Read ''appointment'']\<rparr>)"
  by (simp add: create_appointment_def find_one_def find_slot_truthy slot_taken_def)

lemma create_appointment_free:
  "\<not> slot_taken s (CreateAppointmentRequest.start_time_iso req) \<Longrightarrow>
   create_appointment req new_id s =
     (Inr [(''id'', VStr new_id)],
      s\<lparr>colls := (colls s)(''appointment'' := colls s ''appointment'' @
             [(''_id'', VObjectId new_id) #
              dump_Appointment (new_Appointment
                        (CreateAppointmentRequest.user_id req)
                        (CreateAppointmentRequest.service_id req)
                        (CreateAppointmentRequest.service_title req)
                        (CreateAppointmentRequest.start_time_iso req)
                        (CreateAppointmentRequest.duration_minutes req))]),
        oplog := oplog s @ [Read ''appointment'', Write ''appointment'']\<rparr>)"
  by (simp add: create_appointment_def find_one_def find_slot_truthy slot_taken_def
      create_document_def)

lemma slot_taken_iff:
  "slot_taken s t \<longleftrightarrow> (\<exists>d\<in>set (colls s ''appointment''). map_of d ''start_time_iso'' = Some (VStr t))"
  by (simp add: slot_taken_def list_ex_iff)

text \<open>
  Claim C1. When the appointment collection holds a record whose \<open>start_time_iso\<close> is the
  requested string, booking fails with the error of status 400 and message
  "Time slot already booked", and every collection of the store is what it was: no
  appointment is created.
\<close>

theorem booking_conflict_rejected:
  assumes "d \<in> set (colls s ''appointment'')"
    and "map_of d ''start_time_iso'' = Some (VStr (CreateAppointmentRequest.start_time_iso req))"
  shows "fst (create_appointment req new_id s) = Inl (HTTPException 400 ''Time slot already booked'')
       \<and> colls (snd (create_appointment req new_id s)) = colls s"
proof -
  from assms have "slot_taken s (CreateAppointmentRequest.start_time_iso req)"
    by (auto simp: slot_taken_iff)
  then show ?thesis
    by (simp add: create_appointment_conflict)
qed

lemma one_booked_colls:
  "colls one_booked ''appointment'' =
     [[(''_id'', VObjectId ''a1''), (''user_id'', VStr ''u1''), (''service_id'', VStr ''svc1''),
       (''service_title'', VStr ''Therapy Session''),
       (''start_time_iso'', VStr ''2024-01-01T10:00:00''),
       (''duration_minutes'', VInt 45), (''status'', VStr ''scheduled''), (''order_id'', VNone)]]"
  by (simp add: one_booked_def create_appointment_def find_one_def create_document_def
      truthy_doc_def booking_def empty_store_def dump_Appointment_def new_Appointment_def opt_str_def)

theorem booking_conflict_rejected_witness:
  "fst (create_appointment (booking ''u2'' ''2024-01-01T10:00:00'' 30) ''a2'' one_booked)
     = Inl (HTTPException 400 ''Time slot already booked'')
   \<and> colls (snd (create_appointment (booking ''u2'' ''2024-01-01T10:00:00'' 30) ''a2'' one_booked)) ''appointment''
     = [[(''_id'', VObjectId ''a1''), (''user_id'', VStr ''u1''), (''service_id'', VStr ''svc1''),
       (''service_title'', VStr ''Therapy Session''),
       (''start_time_iso'', VStr ''2024-01-01T10:00:00''),
       (''duration_minutes'', VInt 45), (''status'', VStr ''scheduled''), (''order_id'', VNone)]]"
  using booking_conflict_rejected [of "hd (colls one_booked ''appointment'')" one_booked
      "booking ''u2'' ''2024-01-01T10:00:00'' 30" "''a2''"]
  by (simp add: one_booked_colls booking_def)

lemma create_appointment_free_stored:
  "\<not> slot_taken s (CreateAppointmentRequest.start_time_iso req) \<Longrightarrow>
   create_appointment req new_id s =
     (Inr [(''id'', VStr new_id)],
      s\<lparr>colls := (colls s)(''appointment'' := colls s ''appointment'' @ [stored_appointment req new_id]),
        oplog := oplog s @ [Read ''appointment'', Write ''appointment'']\<rparr>)"
  by (simp add: create_appointment_free stored_appointment_def dump_Appointment_def
      new_Appointment_def opt_str_def)

text \<open>
  Claim C2. When no stored appointment holds the requested \<open>start_time_iso\<close>, booking
  appends one record to the appointment collection, built from the fields of the request
  with status "scheduled" and \<open>order_id\<close> null, and returns the identity generated for
  that record.
\<close>

theorem booking_free_slot_persists:
  assumes "\<forall>d\<in>set (colls s ''appointment'').
             map_of d ''start_time_iso'' \<noteq> Some (VStr (CreateAppointmentRequest.start_time_iso req))"
  shows "fst (create_appointment req new_id s) = Inr [(''id'', VStr new_id)]
       \<and> colls (snd (create_appointment req new_id s)) ''appointment'' =
           colls s ''appointment'' @
           [[(''_id'', VObjectId new_id),
             (''user_id'', VStr (CreateAppointmentRequest.user_id req)),
             (''service_id'', VStr (CreateAppointmentRequest.service_id req)),
             (''service_title'', VStr (CreateAppointmentRequest.service_title req)),
             (''start_time_iso'', VStr (CreateAppointmentRequest.start_time_iso req)),
             (''duration_minutes'', VInt (CreateAppointmentRequest.duration_minutes req)),
             (''status'', VStr ''scheduled''),
             (''order_id'', VNone)]]"
proof -
  from assms have "\<not> slot_taken s (CreateAppointmentRequest.start_time_iso req)"
    by (simp add: slot_taken_iff)
  then show ?thesis
    by (simp add: create_appointment_free_stored stored_appointment_def)
qed

theorem booking_free_slot_persists_witness:
  "fst (create_appointment (booking ''u1'' ''2024-01-01T10:00:00'' 45) ''a1'' empty_store)
     = Inr [(''id'', VStr ''a1'')]
   \<and> colls (snd (create_appointment (booking ''u1'' ''2024-01-01T10:00:00'' 45) ''a1'' empty_store))
        ''appointment''
     = [[(''_id'', VObjectId ''a1''), (''user_id'', VStr ''u1''), (''service_id'', VStr ''svc1''),
         (''service_title'', VStr ''Therapy Session''),
         (''start_time_iso'', VStr ''2024-01-01T10:00:00''),
         (''duration_minutes'', VInt 45), (''status'', VStr ''scheduled''), (''order_id'', VNone)]]"
  using booking_free_slot_persists [of empty_store "booking ''u1'' ''2024-01-01T10:00:00'' 45" "''a1''"]
  by (simp add: empty_store_def booking_def)

lemma slots_append:
  "List.map_filter f (xs @ ys) = List.map_filter f xs @ List.map_filter f ys"
  by (simp add: map_filter_def)

lemma slot_taken_slots: "slot_taken s t \<longleftrightarrow> VStr t \<in> set (slots s)"
  by (force simp: slot_taken_iff slots_def map_filter_def)

lemma create_appointment_unique:
  assumes "unique_slots s"
  shows "unique_slots (snd (create_appointment req new_id s))"
proof (cases "slot_taken s (CreateAppointmentRequest.start_time_iso req)")
  case True
  with assms show ?thesis
    by (simp add: create_appointment_conflict unique_slots_def slots_def)
next
  case False
  then have "VStr (CreateAppointmentRequest.start_time_iso req) \<notin> set (slots s)"
    by (simp add: slot_taken_slots)
  with assms False show ?thesis
    by (simp add: create_appointment_free_stored unique_slots_def slots_def slots_append
        stored_appointment_def map_filter_simps)
qed

lemma book_all_unique: "unique_slots s \<Longrightarrow> unique_slots (book_all rs s)"
  by (induction rs arbitrary: s) (simp_all add: create_appointment_unique)

lemma distinct_map_filter_eq:
  "distinct (List.map_filter f xs) \<Longrightarrow> i < length xs \<Longrightarrow> j < length xs \<Longrightarrow>
   f (xs ! i) = Some v \<Longrightarrow> f (xs ! j) = Some v \<Longrightarrow> i = j"
proof (induction xs arbitrary: i j)
  case Nil
  then show ?case by simp
next
  case (Cons x xs)
  have mem: "\<And>k. k < length xs \<Longrightarrow> f (xs ! k) = Some v \<Longrightarrow> v \<in> set (List.map_filter f xs)"
  proof -
    fix k assume "k < length xs" and "f (xs ! k) = Some v"
    then have "xs ! k \<in> set xs" and "f (xs ! k) = Some v" by simp_all
    then show "v \<in> set (List.map_filter f xs)"
      by (force simp: map_filter_def)
  qed
  show ?case
  proof (cases "f x")
    case None
    with Cons.prems have d: "distinct (List.map_filter f xs)"
      by (simp add: map_filter_simps)
    from None Cons.prems obtain i' j' where "i = Suc i'" "j = Suc j'"
      by (cases i; cases j) auto
    with Cons.prems Cons.IH [OF d, of i' j'] show ?thesis by simp
  next
    case (Some w)
    with Cons.prems have d: "distinct (List.map_filter f xs)" and w: "w \<notin> set (List.map_filter f xs)"
      by (simp_all add: map_filter_simps)
    show ?thesis
    proof (cases i)
      case 0
      with Cons.prems Some have "w = v" by simp
      with w mem Cons.prems show ?thesis
        using 0 by (cases j) auto
    next
      case (Suc i')
      note i = this
      show ?thesis
      proof (cases j)
        case 0
        with Cons.prems Some have "w = v" by simp
        with w mem Cons.prems i show ?thesis by auto
      next
        case (Suc j')
        with i Cons.prems Cons.IH [OF d, of i' j'] show ?thesis by simp
      qed
    qed
  qed
qed

text \<open>
  Claim C3. If no \<open>start_time_iso\<close> value occurs twice in the store, none does after any
  sequence of bookings served one after the other: two positions of the appointment
  collection that hold the same \<open>start_time_iso\<close> are the same position, and two
  appointments A and B of the collection with the same \<open>start_time_iso\<close> are equal.
\<close>

theorem serial_bookings_keep_slots_unique:
  assumes "unique_slots s"
  shows "unique_slots (book_all rs s)
       \<and> (\<forall>i j. i < length (colls (book_all rs s) ''appointment'')
               \<and> j < length (colls (book_all rs s) ''appointment'')
               \<and> map_of (colls (book_all rs s) ''appointment'' ! i) ''start_time_iso'' \<noteq> None
               \<and> map_of (colls (book_all rs s) ''appointment'' ! i) ''start_time_iso''
                 = map_of (colls (book_all rs s) ''appointment'' ! j) ''start_time_iso''
             \<longrightarrow> i = j)
       \<and> (\<forall>A\<in>set (colls (book_all rs s) ''appointment'').
          \<forall>B\<in>set (colls (book_all rs s) ''appointment'').
             map_of A ''start_time_iso'' \<noteq> None
             \<and> map_of A ''start_time_iso'' = map_of B ''start_time_iso''
             \<longrightarrow> A = B)"
proof -
  let ?xs = "colls (book_all rs s) ''appointment''"
  have u: "unique_slots (book_all rs s)"
    using assms by (rule book_all_unique)
  then have "distinct (List.map_filter (\<lambda>d. map_of d ''start_time_iso'') ?xs)"
    by (simp add: unique_slots_def slots_def)
  then have same: "\<And>i j v. i < length ?xs \<Longrightarrow> j < length ?xs \<Longrightarrow>
                 map_of (?xs ! i) ''start_time_iso'' = Some v \<Longrightarrow>
                 map_of (?xs ! j) ''start_time_iso'' = Some v \<Longrightarrow> i = j"
    by (rule distinct_map_filter_eq)
  then have pos: "\<forall>i j. i < length ?xs \<and> j < length ?xs
               \<and> map_of (?xs ! i) ''start_time_iso'' \<noteq> None
               \<and> map_of (?xs ! i) ''start_time_iso'' = map_of (?xs ! j) ''start_time_iso''
             \<longrightarrow> i = j"
    by fastforce
  have "A = B"
    if "A \<in> set ?xs" and "B \<in> set ?xs"
      and "map_of A ''start_time_iso'' \<noteq> None \<and> map_of A ''start_time_iso'' = map_of B ''start_time_iso''"
    for A B
  proof -
    from that(1) obtain i where i: "i < length ?xs" "?xs ! i = A"
      by (auto simp: in_set_conv_nth)
    from that(2) obtain j where j: "j < length ?xs" "?xs ! j = B"
      by (auto simp: in_set_conv_nth)
    from that(3) have ne: "map_of A ''start_time_iso'' \<noteq> None"
      and eq: "map_of A ''start_time_iso'' = map_of B ''start_time_iso''"
      by (rule conjunct1, rule conjunct2)
    from ne obtain v where v: "map_of A ''start_time_iso'' = Some v"
      by auto
    with eq have "map_of A ''start_time_iso'' = Some v"
      and "map_of B ''start_time_iso'' = Some v"
      by simp_all
    with i j have "i = j"
      by (intro same [of i j v]) simp_all
    with i j show ?thesis
      by simp
  qed
  with u pos show ?thesis
    by blast
qed

lemma two_slots_colls:
  "colls (book_all two_slots empty_store) ''appointment'' =
     [stored_appointment (booking ''u1'' ''2024-01-01T10:00:00'' 45) ''a1'',
      stored_appointment (booking ''u2'' ''2024-01-01T10:00:01'' 30) ''a3'']"
  by (simp add: two_slots_def create_appointment_def find_one_def create_document_def
      truthy_doc_def booking_def empty_store_def dump_Appointment_def new_Appointment_def opt_str_def
      stored_appointment_def)

theorem serial_bookings_keep_slots_unique_witness:
  "unique_slots empty_store \<and> unique_slots (book_all two_slots empty_store)
   \<and> length (colls (book_all two_slots empty_store) ''appointment'') = 2"
proof -
  have h: "unique_slots empty_store"
    by (simp add: unique_slots_def slots_def empty_store_def map_filter_simps)
  from serial_bookings_keep_slots_unique [OF h, of two_slots] h show ?thesis
    by (simp add: two_slots_colls)
qed

text \<open>
  Claim C4. A booking is rejected exactly when a stored appointment holds the very string
  requested, and succeeds exactly when none does. In particular, on a store where neither
  slot is taken, booking "2024-01-01T10:00:00" and then "2024-01-01T10:00:01" both
  succeed, whatever the other fields of the two requests.
\<close>

theorem conflict_iff_same_string:
  "(fst (create_appointment req new_id s) = Inl (HTTPException 400 ''Time slot already booked'')
      \<longleftrightarrow> (\<exists>d\<in>set (colls s ''appointment'').
             map_of d ''start_time_iso'' = Some (VStr (CreateAppointmentRequest.start_time_iso req))))
   \<and> (fst (create_appointment req new_id s) = Inr [(''id'', VStr new_id)]
      \<longleftrightarrow> \<not> (\<exists>d\<in>set (colls s ''appointment'').
             map_of d ''start_time_iso'' = Some (VStr (CreateAppointmentRequest.start_time_iso req))))
   \<and> (CreateAppointmentRequest.start_time_iso r1 = ''2024-01-01T10:00:00''
      \<and> CreateAppointmentRequest.start_time_iso r2 = ''2024-01-01T10:00:01''
      \<and> \<not> slot_taken s ''2024-01-01T10:00:00'' \<and> \<not> slot_taken s ''2024-01-01T10:00:01''
      \<longrightarrow> fst (create_appointment r1 id1 s) = Inr [(''id'', VStr id1)]
        \<and> fst (create_appointment r2 id2 (snd (create_appointment r1 id1 s))) = Inr [(''id'', VStr id2)])"
proof (intro conjI impI)
  show "fst (create_appointment req new_id s) = Inl (HTTPException 400 ''Time slot already booked'')
      \<longleftrightarrow> (\<exists>d\<in>set (colls s ''appointment'').
             map_of d ''start_time_iso'' = Some (VStr (CreateAppointmentRequest.start_time_iso req)))"
    by (cases "slot_taken s (CreateAppointmentRequest.start_time_iso req)")
       (simp_all add: create_appointment_conflict create_appointment_free slot_taken_iff)
  show "fst (create_appointment req new_id s) = Inr [(''id'', VStr new_id)]
      \<longleftrightarrow> \<not> (\<exists>d\<in>set (colls s ''appointment'').
             map_of d ''start_time_iso'' = Some (VStr (CreateAppointmentRequest.start_time_iso req)))"
    by (cases "slot_taken s (CreateAppointmentRequest.start_time_iso req)")
       (simp_all add: create_appointment_conflict create_appointment_free slot_taken_iff)
next
  assume a: "CreateAppointmentRequest.start_time_iso r1 = ''2024-01-01T10:00:00''
      \<and> CreateAppointmentRequest.start_time_iso r2 = ''2024-01-01T10:00:01''
      \<and> \<not> slot_taken s ''2024-01-01T10:00:00'' \<and> \<not> slot_taken s ''2024-01-01T10:00:01''"
  then have f1: "\<not> slot_taken s (CreateAppointmentRequest.start_time_iso r1)" by simp
  show "fst (create_appointment r1 id1 s) = Inr [(''id'', VStr id1)]"
    by (simp add: create_appointment_free [OF f1])
  have "\<not> slot_taken (snd (create_appointment r1 id1 s)) (CreateAppointmentRequest.start_time_iso r2)"
    using a by (simp add: create_appointment_free_stored [OF f1] slot_taken_def stored_appointment_def)
  then show "fst (create_appointment r2 id2 (snd (create_appointment r1 id1 s))) = Inr [(''id'', VStr id2)]"
    by (simp add: create_appointment_free)
qed

theorem conflict_iff_same_string_witness:
  "fst (create_appointment (booking ''u1'' ''2024-01-01T10:00:00'' 45) ''a1'' empty_store)
     = Inr [(''id'', VStr ''a1'')]
   \<and> fst (create_appointment (booking ''u2'' ''2024-01-01T10:00:01'' 240) ''a2''
        (snd (create_appointment (booking ''u1'' ''2024-01-01T10:00:00'' 45) ''a1'' empty_store)))
     = Inr [(''id'', VStr ''a2'')]"
  using conflict_iff_same_string [of "booking ''u1'' ''2024-01-01T10:00:00'' 45" "''a1''" empty_store
      "booking ''u1'' ''2024-01-01T10:00:00'' 45" "booking ''u2'' ''2024-01-01T10:00:01'' 240" "''a1''" "''a2''"]
  by (simp add: booking_def slot_taken_def empty_store_def)

text \<open>
  Claim C5. Two bookings against the same store whose requests differ only in
  \<open>duration_minutes\<close> fail with the same error or both succeed.
\<close>

theorem conflict_ignores_duration:
  "(fst (create_appointment (req\<lparr>CreateAppointmentRequest.duration_minutes := m\<rparr>) id2 s) = Inl e
      \<longleftrightarrow> fst (create_appointment req id1 s) = Inl e)
   \<and> ((\<exists>r. fst (create_appointment (req\<lparr>CreateAppointmentRequest.duration_minutes := m\<rparr>) id2 s) = Inr r)
      \<longleftrightarrow> (\<exists>r. fst (create_appointment req id1 s) = Inr r))"
  by (cases "slot_taken s (CreateAppointmentRequest.start_time_iso req)")
     (simp_all add: create_appointment_conflict create_appointment_free)

theorem conflict_ignores_duration_witness:
  "fst (create_appointment (booking ''u2'' ''2024-01-01T10:00:00'' 15) ''a2'' one_booked)
     = Inl (HTTPException 400 ''Time slot already booked'')
   \<and> fst (create_appointment (booking ''u2'' ''2024-01-01T10:00:00'' 240) ''a3'' one_booked)
     = Inl (HTTPException 400 ''Time slot already booked'')"
proof -
  have c: "fst (create_appointment (booking ''u2'' ''2024-01-01T10:00:00'' 15) ''a2'' one_booked)
     = Inl (HTTPException 400 ''Time slot already booked'')"
    by (simp add: create_appointment_def find_one_def truthy_doc_def booking_def one_booked_colls)
  have b: "(booking ''u2'' ''2024-01-01T10:00:00'' 15)\<lparr>CreateAppointmentRequest.duration_minutes := 240\<rparr>
      = booking ''u2'' ''2024-01-01T10:00:00'' 240"
    by (simp add: booking_def)
  from conflict_ignores_duration [where req = "booking ''u2'' ''2024-01-01T10:00:00'' 15"
      and m = 240 and ?id2.0 = "''a3''" and s = one_booked
      and e = "HTTPException 400 ''Time slot already booked''" and ?id1.0 = "''a2''"] c b
  show ?thesis by simp
qed

text \<open>
  Claim C7. A booking adds to the access log one read of the appointment collection,
  followed by one write to it exactly when the booking succeeds; every other collection
  is unchanged, and the appointments stored before are still there, unchanged and in
  place, followed by at most one new record.
\<close>

theorem booking_frame:
  "oplog (snd (create_appointment req new_id s)) =
     oplog s @ Read ''appointment'' #
       (if isl (fst (create_appointment req new_id s)) then [] else [Write ''appointment''])
   \<and> (\<forall>c. c \<noteq> ''appointment'' \<longrightarrow> colls (snd (create_appointment req new_id s)) c = colls s c)
   \<and> take (length (colls s ''appointment'')) (colls (snd (create_appointment req new_id s)) ''appointment'')
       = colls s ''appointment''
   \<and> length (colls (snd (create_appointment req new_id s)) ''appointment'')
       = length (colls s ''appointment'') + (if isl (fst (create_appointment req new_id s)) then 0 else 1)"
  by (cases "slot_taken s (CreateAppointmentRequest.start_time_iso req)")
     (simp_all add: create_appointment_conflict create_appointment_free)

theorem booking_frame_witness:
  "oplog (snd (create_appointment (booking ''u2'' ''2024-01-01T10:00:00'' 30) ''a2'' one_booked))
     = [Read ''appointment'', Write ''appointment'', Read ''appointment'']
   \<and> oplog (snd (create_appointment (booking ''u2'' ''2024-01-01T10:00:01'' 30) ''a2'' one_booked))
     = [Read ''appointment'', Write ''appointment'', Read ''appointment'', Write ''appointment'']
   \<and> colls (snd (create_appointment (booking ''u2'' ''2024-01-01T10:00:01'' 30) ''a2'' one_booked)) ''order''
     = []"
proof -
  have l: "oplog one_booked = [Read ''appointment'', Write ''appointment'']"
    by (simp add: one_booked_def create_appointment_def find_one_def create_document_def
      truthy_doc_def booking_def empty_store_def)
  have o: "colls one_booked ''order'' = []"
    by (simp add: one_booked_def create_appointment_def find_one_def create_document_def
      truthy_doc_def booking_def empty_store_def)
  have c: "isl (fst (create_appointment (booking ''u2'' ''2024-01-01T10:00:00'' 30) ''a2'' one_booked))"
    by (simp add: create_appointment_def find_one_def truthy_doc_def booking_def one_booked_colls)
  have f: "\<not> isl (fst (create_appointment (booking ''u2'' ''2024-01-01T10:00:01'' 30) ''a2'' one_booked))"
    by (simp add: create_appointment_def find_one_def truthy_doc_def booking_def one_booked_colls
        create_document_def)
  from booking_frame [of "booking ''u2'' ''2024-01-01T10:00:00'' 30" "''a2''" one_booked]
       booking_frame [of "booking ''u2'' ''2024-01-01T10:00:01'' 30" "''a2''" one_booked]
       l o c f
  show ?thesis by simp
qed

section \<open>Properties of listing\<close>

lemma matches_user [simp]: "matches [(''user_id'', u)] d \<longleftrightarrow> has_user u d"
  by (simp add: matches_def has_user_def)

lemma matches_empty [simp]: "matches [] d"
  by (simp add: matches_def)

lemma list_appointments_all:
  "\<not> truthy_str u \<Longrightarrow>
   list_appointments r u s =
     (map (to_public r) (colls s ''appointment''), s\<lparr>oplog := oplog s @ [Read ''appointment'']\<rparr>)"
  by (simp add: list_appointments_def get_documents_def)

lemma list_appointments_some:
  "u \<noteq> [] \<Longrightarrow>
   list_appointments r (Some u) s =
     (map (to_public r) (filter (has_user u) (colls s ''appointment'')),
      s\<lparr>oplog := oplog s @ [Read ''appointment'']\<rparr>)"
proof -
  assume "u \<noteq> []"
  then have "filter (matches [(''user_id'', u)]) (colls s ''appointment'')
           = filter (has_user u) (colls s ''appointment'')"
    by (simp cong: filter_cong)
  with \<open>u \<noteq> []\<close> show ?thesis
    by (simp add: list_appointments_def get_documents_def truthy_str_def)
qed

text \<open>
  Claim C6, as amended. Listing with a \<open>user_id\<close> that is not the empty string returns,
  each in its public form, exactly the stored appointments whose \<open>user_id\<close> field is that
  string; listing without \<open>user_id\<close> returns all stored appointments.
\<close>

theorem listing_filters_by_user:
  "(u \<noteq> [] \<longrightarrow>
      fst (list_appointments r (Some u) s)
        = map (to_public r) (filter (has_user u) (colls s ''appointment'')))
   \<and> fst (list_appointments r None s) = map (to_public r) (colls s ''appointment'')"
  by (simp add: list_appointments_some list_appointments_all truthy_str_def)

lemma one_booked_public:
  "map (to_public no_repr) (colls one_booked ''appointment'') =
     [[(''user_id'', VStr ''u1''), (''service_id'', VStr ''svc1''),
       (''service_title'', VStr ''Therapy Session''),
       (''start_time_iso'', VStr ''2024-01-01T10:00:00''),
       (''duration_minutes'', VInt 45), (''status'', VStr ''scheduled''), (''order_id'', VNone),
       (''id'', VStr ''a1'')]]"
  by (simp add: one_booked_colls to_public_def iso_step_def AList.delete_eq)

theorem listing_filters_by_user_witness:
  "fst (list_appointments no_repr (Some ''u1'') one_booked) =
     [[(''user_id'', VStr ''u1''), (''service_id'', VStr ''svc1''),
       (''service_title'', VStr ''Therapy Session''),
       (''start_time_iso'', VStr ''2024-01-01T10:00:00''),
       (''duration_minutes'', VInt 45), (''status'', VStr ''scheduled''), (''order_id'', VNone),
       (''id'', VStr ''a1'')]]
   \<and> fst (list_appointments no_repr (Some ''u2'') one_booked) = []"
  using listing_filters_by_user [of "''u1''" no_repr one_booked]
        listing_filters_by_user [of "''u2''" no_repr one_booked]
        one_booked_public
  by (simp add: one_booked_colls has_user_def)

text \<open>
  Claim C6 as stated fails for the empty string: on the store with the one appointment of
  user "u1", listing with \<open>user_id = ""\<close> returns that appointment, while no stored
  appointment has the empty string as its \<open>user_id\<close>.
\<close>

theorem listing_empty_filter_counterexample:
  "fst (list_appointments no_repr (Some '''') one_booked) =
     [[(''user_id'', VStr ''u1''), (''service_id'', VStr ''svc1''),
       (''service_title'', VStr ''Therapy Session''),
       (''start_time_iso'', VStr ''2024-01-01T10:00:00''),
       (''duration_minutes'', VInt 45), (''status'', VStr ''scheduled''), (''order_id'', VNone),
       (''id'', VStr ''a1'')]]
   \<and> filter (has_user '''') (colls one_booked ''appointment'') = []
   \<and> fst (list_appointments no_repr (Some '''') one_booked)
       \<noteq> map (to_public no_repr) (filter (has_user '''') (colls one_booked ''appointment''))"
proof -
  have listed: "fst (list_appointments no_repr (Some '''') one_booked) =
     [[(''user_id'', VStr ''u1''), (''service_id'', VStr ''svc1''),
       (''service_title'', VStr ''Therapy Session''),
       (''start_time_iso'', VStr ''2024-01-01T10:00:00''),
       (''duration_minutes'', VInt 45), (''status'', VStr ''scheduled''), (''order_id'', VNone),
       (''id'', VStr ''a1'')]]"
    by (simp add: list_appointments_all truthy_str_def one_booked_public)
  have none: "filter (has_user '''') (colls one_booked ''appointment'') = []"
    by (simp add: one_booked_colls has_user_def)
  from listed none show ?thesis
    by simp
qed

text \<open>
  Claim C9. Listing with \<open>user_id\<close> equal to the empty string does what listing without
  \<open>user_id\<close> does: it returns all stored appointments, each in its public form.
\<close>

theorem listing_empty_user_id:
  "list_appointments r (Some '''') s = list_appointments r None s
   \<and> fst (list_appointments r (Some '''') s) = map (to_public r) (colls s ''appointment'')"
  by (simp add: list_appointments_all truthy_str_def)

theorem listing_empty_user_id_witness:
  "fst (list_appointments no_repr (Some '''') (book_all two_slots empty_store))
     = map (to_public no_repr)
         [stored_appointment (booking ''u1'' ''2024-01-01T10:00:00'' 45) ''a1'',
          stored_appointment (booking ''u2'' ''2024-01-01T10:00:01'' 30) ''a3'']"
proof -
  have "fst (list_appointments no_repr (Some []) (book_all two_slots empty_store))
          = map (to_public no_repr) (colls (book_all two_slots empty_store) ''appointment'')"
    using listing_empty_user_id [where r = no_repr and s = "book_all two_slots empty_store"]
    by (rule conjunct2)
  then show ?thesis
    by (simp only: two_slots_colls)
qed

section \<open>Properties of checkout\<close>

lemma foldl_plus: "foldl (+) a xs = a + sum_list (xs :: int list)"
  by (induction xs arbitrary: a) simp_all

lemma py_sum_sum_list: "py_sum xs = sum_list xs"
  by (simp add: py_sum_def foldl_plus)

text \<open>
  Claim C10. A checkout returns, and stores in the new order, the sum over the items of
  \<open>price_cents * quantity\<close> (0 when there are no items); the stored order has status
  "pending" and \<open>paid_at\<close> null.
\<close>

theorem checkout_amount:
  "fst (create_checkout req new_id s) =
     [(''order_id'', VStr new_id),
      (''amount_cents'', VInt (\<Sum>i\<leftarrow>CheckoutRequest.items req. OrderItem.price_cents i * OrderItem.quantity i)),
      (''stripe_checkout_url'', VNone)]
   \<and> colls (snd (create_checkout req new_id s)) ''order'' =
        colls s ''order'' @
          [[(''_id'', VObjectId new_id),
            (''user_id'', VStr (CheckoutRequest.user_id req)),
            (''items'', VList (map (\<lambda>i. VDoc (dump_OrderItem i)) (CheckoutRequest.items req))),
            (''amount_cents'', VInt (\<Sum>i\<leftarrow>CheckoutRequest.items req. OrderItem.price_cents i * OrderItem.quantity i)),
            (''status'', VStr ''pending''),
            (''stripe_session_id'', VNone),
            (''stripe_payment_intent'', VNone),
            (''paid_at'', VNone)]]
   \<and> (CheckoutRequest.items req = [] \<longrightarrow>
        fst (create_checkout req new_id s) =
          [(''order_id'', VStr new_id), (''amount_cents'', VInt 0), (''stripe_checkout_url'', VNone)])"
  by (simp add: create_checkout_def create_document_def py_sum_sum_list dump_Order_def
      new_Order_def opt_str_def opt_datetime_def Let_def)

theorem checkout_amount_witness:
  "fst (create_checkout (checkout [order_item ''svc1'' 2 9000, order_item ''svc2'' 1 15000]) ''o1'' empty_store)
     = [(''order_id'', VStr ''o1''), (''amount_cents'', VInt 33000), (''stripe_checkout_url'', VNone)]
   \<and> fst (create_checkout (checkout []) ''o2'' empty_store)
     = [(''order_id'', VStr ''o2''), (''amount_cents'', VInt 0), (''stripe_checkout_url'', VNone)]
   \<and> map_of (last (colls (snd (create_checkout (checkout [order_item ''svc1'' 2 9000,
          order_item ''svc2'' 1 15000]) ''o1'' empty_store)) ''order'')) ''amount_cents''
     = Some (VInt 33000)"
  using checkout_amount [of "checkout [order_item ''svc1'' 2 9000, order_item ''svc2'' 1 15000]" "''o1''" empty_store]
        checkout_amount [of "checkout []" "''o2''" empty_store]
  by (simp add: checkout_def order_item_def)

section \<open>Properties of the public form\<close>

lemma map_of_iso_step:
  "map_of (iso_step d (k', v')) k =
     (if k = k' \<and> (\<exists>t. v' = VDatetime t) then Some (iso_val v') else map_of d k)"
  by (cases v') (auto simp: iso_step_def iso_val_def update_conv')

lemma map_of_foldl_iso_step:
  "distinct (map fst kvs) \<Longrightarrow>
   map_of (foldl iso_step d kvs) k =
     (case map_of kvs k of
        Some (VDatetime t) \<Rightarrow> Some (VStr (isoformat t))
      | _ \<Rightarrow> map_of d k)"
proof (induction kvs arbitrary: d)
  case Nil
  then show ?case by simp
next
  case (Cons kv kvs)
  obtain k' v' where kv: "kv = (k', v')" by (cases kv)
  from Cons.prems kv have dist: "distinct (map fst kvs)" and fresh: "map_of kvs k' = None"
    by (auto simp: map_of_eq_None_iff)
  have step: "map_of (foldl iso_step (iso_step d (k', v')) kvs) k =
     (case map_of kvs k of
        Some (VDatetime t) \<Rightarrow> Some (VStr (isoformat t))
      | _ \<Rightarrow> map_of (iso_step d (k', v')) k)"
    by (rule Cons.IH [OF dist])
  show ?case
  proof (cases "k = k'")
    case True
    with step fresh kv show ?thesis
      by (cases v') (simp_all add: map_of_iso_step iso_val_def)
  next
    case False
    with step kv show ?thesis
      by (simp add: map_of_iso_step split: option.splits val.splits)
  qed
qed

lemma map_of_loop:
  "distinct (map fst d) \<Longrightarrow> map_of (foldl iso_step d d) k = map_option iso_val (map_of d k)"
  by (simp add: map_of_foldl_iso_step iso_val_def split: option.splits val.splits)

lemma to_public_lookup:
  assumes "distinct (map fst doc)" and "map_of doc ''_id'' = Some v"
  shows "map_of (to_public r doc) k =
           (if k = ''id'' then Some (VStr (py_str r v))
            else if k = ''_id'' then None
            else map_option iso_val (map_of doc k))"
proof -
  let ?d = "AList.update ''id'' (VStr (py_str r v)) (AList.delete ''_id'' doc)"
  from assms have ne: "doc \<noteq> []" by auto
  have dist: "distinct (map fst ?d)"
    using assms(1) by (intro distinct_update distinct_delete)
  have "to_public r doc = foldl iso_step ?d ?d"
    using ne assms(2) by (simp add: to_public_def Let_def)
  then have "map_of (to_public r doc) k = map_option iso_val (map_of ?d k)"
    using dist by (simp add: map_of_loop)
  then show ?thesis
    by (simp add: update_conv' delete_conv' iso_val_def)
qed

lemma iso_val_not_datetime: "iso_val v \<noteq> VDatetime t"
  by (cases v) (simp_all add: iso_val_def)

lemma digit_char_is_digit: "is_digit (digit_char n)"
  unfolding is_digit_def digit_char_def by (rule nth_mem) simp

lemma str_nat_digits: "list_all is_digit (str_nat n)"
proof (induction n rule: str_nat.induct)
  case (1 n)
  show ?case
  proof (cases "n < 10")
    case True
    then show ?thesis
      by (simp add: str_nat.simps [of n] digit_char_is_digit)
  next
    case False
    with 1 show ?thesis
      by (simp add: str_nat.simps [of n] digit_char_is_digit)
  qed
qed

lemma length_str_nat: "0 < w \<Longrightarrow> n < 10 ^ w \<Longrightarrow> length (str_nat n) \<le> w"
proof (induction n arbitrary: w rule: str_nat.induct)
  case (1 n)
  show ?case
  proof (cases "n < 10")
    case True
    with "1.prems" show ?thesis
      by (simp add: str_nat.simps [of n])
  next
    case False
    with "1.prems" obtain v where w: "w = Suc v"
      by (cases w) auto
    with False "1.prems" have "0 < v"
      by (cases v) auto
    moreover from w "1.prems" have "n div 10 < 10 ^ v"
      by (simp add: less_mult_imp_div_less)
    ultimately have "length (str_nat (n div 10)) \<le> v"
      using False by (intro "1.IH") simp_all
    with False w show ?thesis
      by (simp add: str_nat.simps [of n])
  qed
qed

lemma has_shape_digits:
  "has_shape (replicate w CHR ''d'') s \<longleftrightarrow> length s = w \<and> list_all is_digit s"
proof (induction w arbitrary: s)
  case 0
  then show ?case
    by (auto simp: has_shape_def)
next
  case (Suc w)
  show ?case
  proof (cases s)
    case Nil
    then show ?thesis
      by (simp add: has_shape_def)
  next
    case (Cons c cs)
    with Suc [of cs] show ?thesis
      by (auto simp: has_shape_def)
  qed
qed

lemma has_shape_append:
  "has_shape p s \<Longrightarrow> has_shape q u \<Longrightarrow> has_shape (p @ q) (s @ u)"
  by (simp add: has_shape_def list_all2_appendI)

lemma has_shape_sep: "c \<noteq> CHR ''d'' \<Longrightarrow> has_shape [c] [c]"
  by (simp add: has_shape_def)

lemma zero_pad_shape:
  assumes "0 < w" and "n < 10 ^ w"
  shows "has_shape (replicate w CHR ''d'') (zero_pad w n)"
proof -
  from assms have "length (str_nat n) \<le> w"
    by (rule length_str_nat)
  then have "length (zero_pad w n) = w"
    by (simp add: zero_pad_def)
  moreover have "list_all is_digit (zero_pad w n)"
  proof -
    have "is_digit CHR ''0''"
      by (simp add: is_digit_def)
    then have "list_all is_digit (replicate (w - length (str_nat n)) CHR ''0'')"
      by (induction "w - length (str_nat n)") (simp_all add: list_all_iff)
    then show ?thesis
      by (simp add: zero_pad_def str_nat_digits)
  qed
  ultimately show ?thesis
    by (simp add: has_shape_digits)
qed

lemma has_shape_sep_append:
  "has_shape p s \<Longrightarrow> c \<noteq> CHR ''d'' \<Longrightarrow> has_shape q u \<Longrightarrow> has_shape (p @ c # q) (s @ c # u)"
  by (simp add: has_shape_def list_all2_appendI)

lemma replicate_2: "replicate 2 c = [c, c]"
  by (simp add: numeral_2_eq_2)

lemma replicate_4: "replicate 4 c = [c, c, c, c]"
  by (simp add: numeral_eq_Suc)

lemma replicate_6: "replicate 6 c = [c, c, c, c, c, c]"
  by (simp add: numeral_eq_Suc)

lemma days_in_month_le: "1 \<le> m \<Longrightarrow> m \<le> 12 \<Longrightarrow> days_in_month y m \<le> 31"
proof -
  assume "1 \<le> m" and "m \<le> 12"
  then have "m = 1 \<or> m = 2 \<or> m = 3 \<or> m = 4 \<or> m = 5 \<or> m = 6 \<or> m = 7 \<or> m = 8 \<or> m = 9
      \<or> m = 10 \<or> m = 11 \<or> m = 12"
    by arith
  then show ?thesis
    by (elim disjE) (simp_all add: days_in_month_def)
qed

lemma isoformat_iso8601:
  assumes "valid_datetime t"
  shows "iso8601 (isoformat t)"
proof -
  from assms have y: "has_shape (replicate 4 CHR ''d'') (zero_pad 4 (year t))"
    by (simp add: valid_datetime_def zero_pad_shape)
  from assms have mo: "has_shape (replicate 2 CHR ''d'') (zero_pad 2 (month t))"
    by (simp add: valid_datetime_def zero_pad_shape)
  from assms have "day t \<le> 31"
    using days_in_month_le [of "month t" "year t"] by (simp add: valid_datetime_def)
  then have da: "has_shape (replicate 2 CHR ''d'') (zero_pad 2 (day t))"
    by (simp add: zero_pad_shape)
  from assms have h: "has_shape (replicate 2 CHR ''d'') (zero_pad 2 (hour t))"
    by (simp add: valid_datetime_def zero_pad_shape)
  from assms have mi: "has_shape (replicate 2 CHR ''d'') (zero_pad 2 (minute t))"
    by (simp add: valid_datetime_def zero_pad_shape)
  from assms have se: "has_shape (replicate 2 CHR ''d'') (zero_pad 2 (second t))"
    by (simp add: valid_datetime_def zero_pad_shape)
  from assms have us: "has_shape (replicate 6 CHR ''d'') (zero_pad 6 (microsecond t))"
    by (simp add: valid_datetime_def zero_pad_shape)
  have c1: "CHR '':'' \<noteq> CHR ''d''" and c2: "CHR ''T'' \<noteq> CHR ''d''"
    and c3: "CHR ''-'' \<noteq> CHR ''d''" and c4: "CHR ''.'' \<noteq> CHR ''d''"
    by simp_all
  note time = has_shape_sep_append [OF h c1 has_shape_sep_append [OF mi c1 se]]
  note date = has_shape_sep_append [OF y c3 has_shape_sep_append [OF mo c3 da]]
  show ?thesis
  proof (cases "microsecond t = 0")
    case True
    note has_shape_append [OF date has_shape_append [OF has_shape_sep [OF c2] time]]
    then have "has_shape ''dddd-dd-ddTdd:dd:dd'' (isoformat t)"
      using True by (simp add: isoformat_def isoformat_sep_def replicate_2 replicate_4)
    then show ?thesis
      by (simp add: iso8601_def)
  next
    case False
    note has_shape_append [OF date has_shape_append [OF has_shape_sep [OF c2]
           has_shape_append [OF time has_shape_append [OF has_shape_sep [OF c4] us]]]]
    then have "has_shape ''dddd-dd-ddTdd:dd:dd.dddddd'' (isoformat t)"
      using False by (simp add: isoformat_def isoformat_sep_def replicate_2 replicate_4 replicate_6)
    then show ?thesis
      by (simp add: iso8601_def)
  qed
qed

lemma set_list_appointments:
  "set (fst (list_appointments r u s)) \<subseteq> to_public r ` set (colls s ''appointment'')"
  by (auto simp: list_appointments_def get_documents_def)

text \<open>
  Claim C8. Every record the listing returns is the public form of a stored appointment.
  In the public form of a record that has an \<open>_id\<close>, the field \<open>id\<close> holds the text of that
  identity, there is no field \<open>_id\<close>, no field holds a datetime, and every other field
  that held a datetime holds its \<open>isoformat\<close> text, which has the ISO-8601 shape.
\<close>

theorem listing_public_form:
  "set (fst (list_appointments r u s)) \<subseteq> to_public r ` set (colls s ''appointment'')
   \<and> (distinct (map fst doc) \<and> map_of doc ''_id'' = Some v \<longrightarrow>
        map_of (to_public r doc) ''id'' = Some (VStr (py_str r v))
        \<and> map_of (to_public r doc) ''_id'' = None
        \<and> (\<forall>k t. map_of (to_public r doc) k \<noteq> Some (VDatetime t))
        \<and> (\<forall>k t. k \<noteq> ''id'' \<and> k \<noteq> ''_id'' \<and> map_of doc k = Some (VDatetime t) \<longrightarrow>
              map_of (to_public r doc) k = Some (VStr (isoformat t))
              \<and> (valid_datetime t \<longrightarrow> iso8601 (isoformat t))))"
proof (intro conjI impI allI)
  show "set (fst (list_appointments r u s)) \<subseteq> to_public r ` set (colls s ''appointment'')"
    by (rule set_list_appointments)
next
  assume "distinct (map fst doc) \<and> map_of doc ''_id'' = Some v"
  then have l: "\<And>k. map_of (to_public r doc) k =
           (if k = ''id'' then Some (VStr (py_str r v))
            else if k = ''_id'' then None
            else map_option iso_val (map_of doc k))"
    by (simp add: to_public_lookup)
  show "map_of (to_public r doc) ''id'' = Some (VStr (py_str r v))"
    by (simp add: l)
  show "map_of (to_public r doc) ''_id'' = None"
    by (simp add: l)
  show "map_of (to_public r doc) k \<noteq> Some (VDatetime t)" for k t
    by (auto simp: l iso_val_not_datetime)
  show "map_of (to_public r doc) k = Some (VStr (isoformat t))"
    if "k \<noteq> ''id'' \<and> k \<noteq> ''_id'' \<and> map_of doc k = Some (VDatetime t)" for k t
    using that by (simp add: l iso_val_def)
  show "iso8601 (isoformat t)" if "valid_datetime t" for t
    using that by (rule isoformat_iso8601)
qed

lemma booked_at_iso: "isoformat booked_at = ''2024-01-01T09:30:00''"
  by (simp add: isoformat_def isoformat_sep_def zero_pad_def str_nat.simps digit_char_def
      booked_at_def)

theorem listing_public_form_witness:
  "map_of (to_public no_repr dated_doc) ''id'' = Some (VStr ''a1'')
   \<and> map_of (to_public no_repr dated_doc) ''_id'' = None
   \<and> map_of (to_public no_repr dated_doc) ''created_at'' = Some (VStr ''2024-01-01T09:30:00'')
   \<and> iso8601 ''2024-01-01T09:30:00''"
proof -
  have d: "distinct (map fst dated_doc) \<and> map_of dated_doc ''_id'' = Some (VObjectId ''a1'')"
    by (simp add: dated_doc_def)
  have c: "''created_at'' \<noteq> ''id'' \<and> ''created_at'' \<noteq> ''_id''
      \<and> map_of dated_doc ''created_at'' = Some (VDatetime booked_at)"
    by (simp add: dated_doc_def)
  have v: "valid_datetime booked_at"
    by (simp add: valid_datetime_def booked_at_def days_in_month_def)
  from listing_public_form [where doc = dated_doc and v = "VObjectId ''a1''" and r = no_repr
      and u = None and s = empty_store] d
  have a: "map_of (to_public no_repr dated_doc) ''id'' = Some (VStr (py_str no_repr (VObjectId ''a1'')))
        \<and> map_of (to_public no_repr dated_doc) ''_id'' = None
        \<and> (\<forall>k t. k \<noteq> ''id'' \<and> k \<noteq> ''_id'' \<and> map_of dated_doc k = Some (VDatetime t) \<longrightarrow>
              map_of (to_public no_repr dated_doc) k = Some (VStr (isoformat t))
              \<and> (valid_datetime t \<longrightarrow> iso8601 (isoformat t)))"
    by blast
  then have "\<forall>k t. k \<noteq> ''id'' \<and> k \<noteq> ''_id'' \<and> map_of dated_doc k = Some (VDatetime t) \<longrightarrow>
              map_of (to_public no_repr dated_doc) k = Some (VStr (isoformat t))
              \<and> (valid_datetime t \<longrightarrow> iso8601 (isoformat t))"
    by (elim conjE)
  note r = this [rule_format, of "''created_at''" booked_at, OF c]
  from r have "map_of (to_public no_repr dated_doc) ''created_at'' = Some (VStr (isoformat booked_at))"
    by (rule conjunct1)
  then have created: "map_of (to_public no_repr dated_doc) ''created_at'' = Some (VStr ''2024-01-01T09:30:00'')"
    by (simp only: booked_at_iso)
  from r have "valid_datetime booked_at \<longrightarrow> iso8601 (isoformat booked_at)"
    by (rule conjunct2)
  then have "iso8601 (isoformat booked_at)"
    using v by (rule mp)
  then have shape: "iso8601 ''2024-01-01T09:30:00''"
    by (simp only: booked_at_iso)
  from a have "map_of (to_public no_repr dated_doc) ''id'' = Some (VStr (py_str no_repr (VObjectId ''a1'')))"
    by (rule conjunct1)
  then have ident: "map_of (to_public no_repr dated_doc) ''id'' = Some (VStr ''a1'')"
    by (simp only: py_str.simps)
  from a have internal: "map_of (to_public no_repr dated_doc) ''_id'' = None"
    by (elim conjE)
  from ident internal created shape show ?thesis
    by (intro conjI)
qed

end
